theory Spec2Isabelle
  imports Main
begin

section \<open>JavaScript values read by the date-range library\<close>

text \<open>
  The functions of \<^verbatim>\<open>src/lib/leaseLibrary.js\<close> read the \<^verbatim>\<open>startDate\<close> and
  \<^verbatim>\<open>endDate\<close> properties of plain objects, test them for truthiness, turn them into
  millisecond timestamps with \<^verbatim>\<open>new Date(x).getTime()\<close> and compare the timestamps.

  A timestamp is an IEEE double that is either NaN or an integral number of milliseconds;
  it is modelled as \<open>NaN\<close> or \<open>Fin n\<close> with \<open>n\<close> an integer. Every relational operator
  and \<^verbatim>\<open>==\<close> is false as soon as one operand is NaN, and arithmetic propagates NaN.
\<close>

datatype jsnum = NaN | Fin int

fun num_lt :: "jsnum \<Rightarrow> jsnum \<Rightarrow> bool" where
  "num_lt (Fin x) (Fin y) = (x < y)"
| "num_lt _ _ = False"

fun num_le :: "jsnum \<Rightarrow> jsnum \<Rightarrow> bool" where
  "num_le (Fin x) (Fin y) = (x \<le> y)"
| "num_le _ _ = False"

fun num_gt :: "jsnum \<Rightarrow> jsnum \<Rightarrow> bool" where
  "num_gt (Fin x) (Fin y) = (x > y)"
| "num_gt _ _ = False"

fun num_ge :: "jsnum \<Rightarrow> jsnum \<Rightarrow> bool" where
  "num_ge (Fin x) (Fin y) = (x \<ge> y)"
| "num_ge _ _ = False"

fun num_eq :: "jsnum \<Rightarrow> jsnum \<Rightarrow> bool" where
  "num_eq (Fin x) (Fin y) = (x = y)"
| "num_eq _ _ = False"

fun isNaN :: "jsnum \<Rightarrow> bool" where
  "isNaN NaN = True"
| "isNaN (Fin _) = False"

text \<open>
  Sums and differences of integral doubles are exact up to \<open>2^53\<close>. Between \<open>2^53\<close> and
  \<open>2^54\<close> only the even integers are doubles and an odd result is rounded to the
  neighbour that is a multiple of four (round to nearest, ties to even). The operands
  that occur are timestamps (at most \<open>8.64 * 10^15\<close> in magnitude) and the length of a
  day, so no result reaches \<open>2^54\<close>.
\<close>

definition dround :: "int \<Rightarrow> int" where
  "dround x =
     (if \<bar>x\<bar> \<le> 9007199254740992 then x
      else if x mod 4 = 1 then x - 1
      else if x mod 4 = 3 then x + 1
      else x)"

fun num_add :: "jsnum \<Rightarrow> jsnum \<Rightarrow> jsnum" where
  "num_add (Fin x) (Fin y) = Fin (dround (x + y))"
| "num_add _ _ = NaN"

fun num_sub :: "jsnum \<Rightarrow> jsnum \<Rightarrow> jsnum" where
  "num_sub (Fin x) (Fin y) = Fin (dround (x - y))"
| "num_sub _ _ = NaN"

text \<open>
  The values of a date field from which \<^verbatim>\<open>new Date\<close> builds a date: absent
  (\<^verbatim>\<open>undefined\<close>), \<^verbatim>\<open>null\<close>, a boolean, a number, a string or a \<^verbatim>\<open>Date\<close> object
  (given by its time value; NaN is the Invalid Date). A number is given by its integer
  part, which is what \<^verbatim>\<open>new Date\<close> keeps of it. The functions use a field only
  through its truthiness and its timestamp; a value not listed here that has both (a
  fraction below one, truthy with timestamp 0; an array or object with a primitive
  value) behaves as the listed value with the same two. The values on which
  \<^verbatim>\<open>new Date\<close> throws are added in a later section.
\<close>

datatype jsval =
    JUndefined
  | JNull
  | JBool bool
  | JNumber jsnum
  | JString string
  | JDate jsnum

text \<open>\<^verbatim>\<open>!x\<close> is \<open>\<not> truthy x\<close>.\<close>

fun truthy :: "jsval \<Rightarrow> bool" where
  "truthy JUndefined = False"
| "truthy JNull = False"
| "truthy (JBool b) = b"
| "truthy (JNumber NaN) = False"
| "truthy (JNumber (Fin n)) = (n \<noteq> 0)"
| "truthy (JString s) = (s \<noteq> [])"
| "truthy (JDate _) = True"

text \<open>
  \<^verbatim>\<open>TimeClip\<close> of ECMAScript: a time value beyond \<open>8.64 * 10^15\<close> ms from the epoch is
  not a date, and every \<^verbatim>\<open>Date\<close> constructor stores the clipped value.
\<close>

fun timeClip :: "jsnum \<Rightarrow> jsnum" where
  "timeClip NaN = NaN"
| "timeClip (Fin n) = (if \<bar>n\<bar> > 8640000000000000 then NaN else Fin n)"

text \<open>
  \<^verbatim>\<open>new Date(v).getTime()\<close>. A \<^verbatim>\<open>Date\<close> argument gives its own time value, a string is
  handed to the host's \<^verbatim>\<open>Date.parse\<close>, anything else is converted to a number
  (\<^verbatim>\<open>undefined\<close> to NaN, \<^verbatim>\<open>null\<close> and \<^verbatim>\<open>false\<close> to 0, \<^verbatim>\<open>true\<close> to 1). \<^verbatim>\<open>Date.parse\<close>
  belongs to the JavaScript engine and is the parameter \<open>parse\<close> of the model.
\<close>

type_synonym dateParse = "string \<Rightarrow> jsnum"

fun newDate_getTime :: "dateParse \<Rightarrow> jsval \<Rightarrow> jsnum" where
  "newDate_getTime parse (JDate t) = timeClip t"
| "newDate_getTime parse (JString s) = timeClip (parse s)"
| "newDate_getTime parse JUndefined = timeClip NaN"
| "newDate_getTime parse JNull = timeClip (Fin 0)"
| "newDate_getTime parse (JBool b) = timeClip (Fin (if b then 1 else 0))"
| "newDate_getTime parse (JNumber n) = timeClip n"

text \<open>\<^verbatim>\<open>new Date(v)\<close>, the object itself.\<close>

definition newDate :: "dateParse \<Rightarrow> jsval \<Rightarrow> jsval" where
  "newDate parse v = JDate (newDate_getTime parse v)"

section \<open>Date ranges and the store\<close>

text \<open>
  A date range is an object with the properties \<^verbatim>\<open>startDate\<close> and \<^verbatim>\<open>endDate\<close>; the
  extension of the record stands for whatever other properties the object has.
  Objects are passed by reference and \<^verbatim>\<open>dateRangeOverlaps\<close> assigns to their
  properties, so the functions work on a store from references to objects.
\<close>

record dateRange =
  startDate :: jsval
  endDate :: jsval

type_synonym ref = nat

type_synonym 'a store = "ref \<Rightarrow> 'a dateRange_scheme"

text \<open>
  The relational operators of \<^verbatim>\<open>dateRangeOverlaps\<close> are applied to properties that
  the preceding lines have just assigned numbers to; \<open>the_number\<close> reads such a
  property.
\<close>

fun the_number :: "jsval \<Rightarrow> jsnum" where
  "the_number (JNumber n) = n"
| "the_number _ = NaN"

section \<open>dateRangeOverlaps\<close>

text \<open>
  \<^verbatim>\<open>
  const dateRangeOverlaps = (dateRange1, dateRange2) => {
    dateRange1.startDate = new Date(dateRange1.startDate).getTime();
    dateRange1.endDate = new Date(dateRange1.endDate).getTime();
    dateRange2.startDate = new Date(dateRange2.startDate).getTime();
    dateRange2.endDate = new Date(dateRange2.endDate).getTime();
    if (dateRange1.startDate <= dateRange2.startDate &&
        dateRange2.startDate <= dateRange1.endDate) return true;
    if (dateRange1.startDate <= dateRange2.endDate &&
        dateRange2.endDate <= dateRange1.endDate) return true;
    if (dateRange2.startDate < dateRange1.startDate &&
        dateRange1.endDate < dateRange2.endDate) return true;
    return false;
  };
  \<close>
  The four assignments are made one after the other on the store, so that the model
  also covers a call with the same object for both arguments. The call of
  \<^verbatim>\<open>console.log\<close> writes to the process's output and is not part of the store.
\<close>

definition set_startDate :: "ref \<Rightarrow> jsval \<Rightarrow> 'a store \<Rightarrow> 'a store" where
  "set_startDate r v h = h(r := (h r)\<lparr>startDate := v\<rparr>)"

definition set_endDate :: "ref \<Rightarrow> jsval \<Rightarrow> 'a store \<Rightarrow> 'a store" where
  "set_endDate r v h = h(r := (h r)\<lparr>endDate := v\<rparr>)"

definition dateRangeOverlaps ::
  "dateParse \<Rightarrow> ref \<Rightarrow> ref \<Rightarrow> 'a store \<Rightarrow> bool \<times> 'a store" where
  "dateRangeOverlaps parse dateRange1 dateRange2 h =
     (let h1 = set_startDate dateRange1
                 (JNumber (newDate_getTime parse (startDate (h dateRange1)))) h;
          h2 = set_endDate dateRange1
                 (JNumber (newDate_getTime parse (endDate (h1 dateRange1)))) h1;
          h3 = set_startDate dateRange2
                 (JNumber (newDate_getTime parse (startDate (h2 dateRange2)))) h2;
          h4 = set_endDate dateRange2
                 (JNumber (newDate_getTime parse (endDate (h3 dateRange2)))) h3;
          s1 = the_number (startDate (h4 dateRange1));
          e1 = the_number (endDate (h4 dateRange1));
          s2 = the_number (startDate (h4 dateRange2));
          e2 = the_number (endDate (h4 dateRange2))
      in if num_le s1 s2 \<and> num_le s2 e1 then (True, h4)
         else if num_le s1 e2 \<and> num_le e2 e1 then (True, h4)
         else if num_lt s2 s1 \<and> num_lt e1 e2 then (True, h4)
         else (False, h4))"

section \<open>checkAvailabibility\<close>

text \<open>
  \<^verbatim>\<open>
  const checkAvailabibility = (dateRangeArray, dateRange) => {
    for (let dr of dateRangeArray) {
      if (dateRangeOverlaps(dr, dateRange)) {
        return dateRangeArray.indexOf(dr);
      }
    }
    return -1;
  };
  \<close>
  The array holds references. \<^verbatim>\<open>indexOf\<close> returns the first position whose element is
  the same object as its argument, and \<open>-1\<close> when there is none.
\<close>

fun indexOf_from :: "ref list \<Rightarrow> ref \<Rightarrow> int \<Rightarrow> int" where
  "indexOf_from [] dr k = -1"
| "indexOf_from (x # xs) dr k = (if x = dr then k else indexOf_from xs dr (k + 1))"

definition indexOf :: "ref list \<Rightarrow> ref \<Rightarrow> int" where
  "indexOf xs dr = indexOf_from xs dr 0"

text \<open>
  The loop, on the elements still to visit; \<open>dateRangeArray\<close> is the whole array,
  which \<^verbatim>\<open>indexOf\<close> searches.
\<close>

fun checkAvailabibility_loop ::
  "dateParse \<Rightarrow> ref list \<Rightarrow> ref list \<Rightarrow> ref \<Rightarrow> 'a store \<Rightarrow> int \<times> 'a store" where
  "checkAvailabibility_loop parse dateRangeArray [] dateRange h = (-1, h)"
| "checkAvailabibility_loop parse dateRangeArray (dr # rest) dateRange h =
     (case dateRangeOverlaps parse dr dateRange h of
        (True, h') \<Rightarrow> (indexOf dateRangeArray dr, h')
      | (False, h') \<Rightarrow> checkAvailabibility_loop parse dateRangeArray rest dateRange h')"

definition checkAvailabibility ::
  "dateParse \<Rightarrow> ref list \<Rightarrow> ref \<Rightarrow> 'a store \<Rightarrow> int \<times> 'a store" where
  "checkAvailabibility parse dateRangeArray dateRange h =
     checkAvailabibility_loop parse dateRangeArray dateRangeArray dateRange h"

section \<open>compareDateRanges\<close>

text \<open>
  \<^verbatim>\<open>
  const compareDateRanges = (dr1, dr2) => {
    if (!dr1.startDate || !dr1.endDate || !dr2.startDate || !dr2.endDate)
      return null;
    const a = { startDate: new Date(dr1.startDate).getTime(),
                endDate: new Date(dr1.endDate).getTime() };
    const b = { startDate: new Date(dr2.startDate).getTime(),
                endDate: new Date(dr2.endDate).getTime() };
    if (a.endDate - a.startDate < b.endDate - b.startDate) { return -1; }
    else if (a.endDate - a.startDate > b.endDate - b.startDate) { return 1; }
    else { return 0; }
  };
  \<close>
  The function only reads its arguments, so it takes the two objects themselves.
  \<open>None\<close> is the returned \<^verbatim>\<open>null\<close>.
\<close>

definition compareDateRanges ::
  "dateParse \<Rightarrow> 'a dateRange_scheme \<Rightarrow> 'b dateRange_scheme \<Rightarrow> int option" where
  "compareDateRanges parse dr1 dr2 =
     (if \<not> truthy (startDate dr1) \<or> \<not> truthy (endDate dr1) \<or>
         \<not> truthy (startDate dr2) \<or> \<not> truthy (endDate dr2)
      then None
      else
        let a_startDate = newDate_getTime parse (startDate dr1);
            a_endDate = newDate_getTime parse (endDate dr1);
            b_startDate = newDate_getTime parse (startDate dr2);
            b_endDate = newDate_getTime parse (endDate dr2)
        in if num_lt (num_sub a_endDate a_startDate) (num_sub b_endDate b_startDate)
           then Some (-1)
           else if num_gt (num_sub a_endDate a_startDate) (num_sub b_endDate b_startDate)
           then Some 1
           else Some 0)"

section \<open>dateRangeSplitter\<close>

text \<open>
  The function returns an array whose elements are \<^verbatim>\<open>null\<close> or fresh range objects
  holding \<^verbatim>\<open>Date\<close>s. An element is a \<open>dateRange option\<close> with \<open>None\<close> for \<^verbatim>\<open>null\<close>.
  The first branch of the algorithm is an \<^verbatim>\<open>if\<close> / \<^verbatim>\<open>else if\<close> / \<^verbatim>\<open>else if\<close> chain
  with no final \<^verbatim>\<open>else\<close>: when none of its three conditions holds, control reaches
  the end of the function, which then returns \<^verbatim>\<open>undefined\<close>. The result of the
  model is therefore an optional array, \<open>None\<close> being \<^verbatim>\<open>undefined\<close>.

  After the call of \<^verbatim>\<open>dateRangeOverlaps\<close> nothing is assigned any more, so each
  of the repeated expressions \<^verbatim>\<open>new Date(field).getTime()\<close> has one value, bound once:
  \<open>ws\<close>, \<open>we\<close> for the start and end of \<^verbatim>\<open>dateRangeToWithdraw\<close>, \<open>ss\<close>, \<open>se\<close> for
  those of \<^verbatim>\<open>dateRangeToSplit\<close>. The source lines are quoted beside each branch.
\<close>

definition DAY_IN_MS :: jsnum where
  "DAY_IN_MS = Fin (1000 * 60 * 60 * 24)"

definition dateRangeSplitter ::
  "dateParse \<Rightarrow> ref \<Rightarrow> ref \<Rightarrow> 'a store \<Rightarrow> dateRange option list option \<times> 'a store" where
  "dateRangeSplitter parse dateRangeToSplit dateRangeToWithdraw h =
     (if \<not> truthy (startDate (h dateRangeToSplit)) \<or>
         \<not> truthy (endDate (h dateRangeToSplit)) \<or>
         \<not> truthy (startDate (h dateRangeToWithdraw)) \<or>
         \<not> truthy (endDate (h dateRangeToWithdraw))
      then (Some [], h)
      else
        case dateRangeOverlaps parse dateRangeToSplit dateRangeToWithdraw h of
          (False, h') \<Rightarrow> (Some [], h')
        | (True, h') \<Rightarrow>
            let ws = newDate_getTime parse (startDate (h' dateRangeToWithdraw));
                we = newDate_getTime parse (endDate (h' dateRangeToWithdraw));
                ss = newDate_getTime parse (startDate (h' dateRangeToSplit));
                se = newDate_getTime parse (endDate (h' dateRangeToSplit))
            in
              \<comment> \<open>lines 224-228: withdraw start after withdraw end\<close>
              if num_gt ws we then (Some [], h')
              \<comment> \<open>lines 231-237: malformed parameters\<close>
              else if isNaN ws \<or> isNaN we \<or> isNaN ss \<or> isNaN se then (Some [], h')
              \<comment> \<open>lines 253-258: branch 1\<close>
              else if num_lt ws ss \<or> num_gt we (num_add se DAY_IN_MS) then
                \<comment> \<open>lines 262-280\<close>
                if num_lt ws ss \<and> num_le we se then
                  (Some [Some \<lparr>startDate = newDate parse (JNumber (num_add we DAY_IN_MS)),
                               endDate = newDate parse (JNumber se)\<rparr>], h')
                \<comment> \<open>lines 283-303\<close>
                else if num_ge ws ss \<and> num_le ws se \<and> num_gt we se then
                  (Some [Some \<lparr>startDate = newDate parse (JNumber ss),
                               endDate = newDate parse (JNumber (num_sub ws DAY_IN_MS))\<rparr>], h')
                \<comment> \<open>lines 306-322\<close>
                else if num_lt ws ss \<and> num_gt we se then
                  (Some [Some \<lparr>startDate = newDate parse (startDate (h' dateRangeToSplit)),
                               endDate = newDate parse (endDate (h' dateRangeToSplit))\<rparr>], h')
                \<comment> \<open>no branch taken: the function ends without a return statement\<close>
                else (None, h')
              \<comment> \<open>lines 326-401: branch 2\<close>
              else
                \<comment> \<open>lines 330-342\<close>
                if num_eq ws ss \<and> num_eq we se then (Some [None], h')
                \<comment> \<open>lines 344-361\<close>
                else if num_eq ws ss then
                  (Some [Some \<lparr>startDate = newDate parse (JNumber (num_add we DAY_IN_MS)),
                               endDate = newDate parse (JNumber se)\<rparr>], h')
                \<comment> \<open>lines 363-379\<close>
                else if num_eq we se then
                  (Some [Some \<lparr>startDate = newDate parse (JNumber ss),
                               endDate = newDate parse (JNumber (num_sub ws DAY_IN_MS))\<rparr>], h')
                \<comment> \<open>lines 381-400\<close>
                else
                  (Some [Some \<lparr>startDate = newDate parse (startDate (h' dateRangeToSplit)),
                               endDate = newDate parse (JNumber (num_sub ws DAY_IN_MS))\<rparr>,
                         Some \<lparr>startDate = newDate parse (JNumber (num_add we DAY_IN_MS)),
                               endDate = newDate parse (endDate (h' dateRangeToSplit))\<rparr>], h'))"

section \<open>Date fields that cannot be converted: the thrown TypeError\<close>

text \<open>
  The values of \<open>jsval\<close> are those from which \<^verbatim>\<open>new Date(v)\<close> builds a date, valid or
  not. On the other values of JavaScript the constructor throws a \<^verbatim>\<open>TypeError\<close>: a
  \<^verbatim>\<open>Symbol\<close> and a \<^verbatim>\<open>BigInt\<close> (their conversion to a number throws), and an object
  that has no primitive value, such as \<^verbatim>\<open>{toString: 1}\<close> (its conversion to a primitive
  throws). A \<^verbatim>\<open>Symbol\<close> and an object are truthy, a \<^verbatim>\<open>BigInt\<close> is truthy unless it is
  \<^verbatim>\<open>0n\<close>. The library has no \<^verbatim>\<open>try\<close>, so the exception leaves the function that
  called the constructor and its callers.
\<close>

datatype error = TypeError

datatype jsfield =
    Convertible jsval
  | JSymbol
  | JBigInt int
  | JUnconvertible

fun truthy_field :: "jsfield \<Rightarrow> bool" where
  "truthy_field (Convertible v) = truthy v"
| "truthy_field JSymbol = True"
| "truthy_field (JBigInt n) = (n \<noteq> 0)"
| "truthy_field JUnconvertible = True"

fun convertible :: "jsfield \<Rightarrow> bool" where
  "convertible (Convertible v) = True"
| "convertible JSymbol = False"
| "convertible (JBigInt n) = False"
| "convertible JUnconvertible = False"

text \<open>\<^verbatim>\<open>new Date(v).getTime()\<close> on any field: the timestamp, or the exception.\<close>

fun newDate_getTime_throwing :: "dateParse \<Rightarrow> jsfield \<Rightarrow> error + jsnum" where
  "newDate_getTime_throwing parse (Convertible v) = Inr (newDate_getTime parse v)"
| "newDate_getTime_throwing parse JSymbol = Inl TypeError"
| "newDate_getTime_throwing parse (JBigInt n) = Inl TypeError"
| "newDate_getTime_throwing parse JUnconvertible = Inl TypeError"

text \<open>
  An object whose \<^verbatim>\<open>startDate\<close> and \<^verbatim>\<open>endDate\<close> hold fields of any kind, and the
  store of such objects.
\<close>

record fieldRange =
  startField :: jsfield
  endField :: jsfield

type_synonym 'a fieldStore = "ref \<Rightarrow> 'a fieldRange_scheme"

fun the_number_field :: "jsfield \<Rightarrow> jsnum" where
  "the_number_field (Convertible v) = the_number v"
| "the_number_field _ = NaN"

text \<open>
  \<^verbatim>\<open>dateRangeOverlaps\<close> (lines 51-75) on such a store. Each of the four assignments
  first evaluates \<^verbatim>\<open>new Date(...).getTime()\<close>; when that throws, the function is left
  with the store as the assignments made so far have changed it.
\<close>

definition dateRangeOverlaps_throwing ::
  "dateParse \<Rightarrow> ref \<Rightarrow> ref \<Rightarrow> 'a fieldStore \<Rightarrow> (error + bool) \<times> 'a fieldStore" where
  "dateRangeOverlaps_throwing parse dateRange1 dateRange2 h =
     (case newDate_getTime_throwing parse (startField (h dateRange1)) of
        Inl e \<Rightarrow> (Inl e, h)
      | Inr t1 \<Rightarrow>
     let h1 = h(dateRange1 := (h dateRange1)\<lparr>startField := Convertible (JNumber t1)\<rparr>) in
     case newDate_getTime_throwing parse (endField (h1 dateRange1)) of
        Inl e \<Rightarrow> (Inl e, h1)
      | Inr t2 \<Rightarrow>
     let h2 = h1(dateRange1 := (h1 dateRange1)\<lparr>endField := Convertible (JNumber t2)\<rparr>) in
     case newDate_getTime_throwing parse (startField (h2 dateRange2)) of
        Inl e \<Rightarrow> (Inl e, h2)
      | Inr t3 \<Rightarrow>
     let h3 = h2(dateRange2 := (h2 dateRange2)\<lparr>startField := Convertible (JNumber t3)\<rparr>) in
     case newDate_getTime_throwing parse (endField (h3 dateRange2)) of
        Inl e \<Rightarrow> (Inl e, h3)
      | Inr t4 \<Rightarrow>
     let h4 = h3(dateRange2 := (h3 dateRange2)\<lparr>endField := Convertible (JNumber t4)\<rparr>);
         s1 = the_number_field (startField (h4 dateRange1));
         e1 = the_number_field (endField (h4 dateRange1));
         s2 = the_number_field (startField (h4 dateRange2));
         e2 = the_number_field (endField (h4 dateRange2))
     in if num_le s1 s2 \<and> num_le s2 e1 then (Inr True, h4)
        else if num_le s1 e2 \<and> num_le e2 e1 then (Inr True, h4)
        else if num_lt s2 s1 \<and> num_lt e1 e2 then (Inr True, h4)
        else (Inr False, h4))"

text \<open>
  \<^verbatim>\<open>dateRangeSplitter\<close> (lines 205-402) on such a store. The truthiness tests come
  first and convert nothing. The call of \<^verbatim>\<open>dateRangeOverlaps\<close> is the first place where
  dates are built. After it the conversions are made in the order of the source: those
  of the withdrawal for the test of lines 224-228, then, with the short-circuit of
  \<^verbatim>\<open>||\<close>, those of lines 232-235. The branches below bind the four timestamps
  \<open>ws\<close>, \<open>we\<close>, \<open>ss\<close>, \<open>se\<close> as in \<open>dateRangeSplitter\<close>; \<^verbatim>\<open>new Date(field)\<close> of a
  property whose timestamp is already bound is the \<^verbatim>\<open>Date\<close> of that timestamp.
\<close>

definition dateRangeSplitter_throwing ::
  "dateParse \<Rightarrow> ref \<Rightarrow> ref \<Rightarrow> 'a fieldStore \<Rightarrow>
     (error + dateRange option list option) \<times> 'a fieldStore" where
  "dateRangeSplitter_throwing parse dateRangeToSplit dateRangeToWithdraw h =
     (if \<not> truthy_field (startField (h dateRangeToSplit)) \<or>
         \<not> truthy_field (endField (h dateRangeToSplit)) \<or>
         \<not> truthy_field (startField (h dateRangeToWithdraw)) \<or>
         \<not> truthy_field (endField (h dateRangeToWithdraw))
      then (Inr (Some []), h)
      else
        case dateRangeOverlaps_throwing parse dateRangeToSplit dateRangeToWithdraw h of
          (Inl e, h') \<Rightarrow> (Inl e, h')
        | (Inr overlaps, h') \<Rightarrow>
        if \<not> overlaps then (Inr (Some []), h')
        else
        case newDate_getTime_throwing parse (startField (h' dateRangeToWithdraw)) of
          Inl e \<Rightarrow> (Inl e, h')
        | Inr ws \<Rightarrow>
        case newDate_getTime_throwing parse (endField (h' dateRangeToWithdraw)) of
          Inl e \<Rightarrow> (Inl e, h')
        | Inr we \<Rightarrow>
        \<comment> \<open>lines 224-228\<close>
        if num_gt ws we then (Inr (Some []), h')
        \<comment> \<open>lines 231-237\<close>
        else if isNaN ws \<or> isNaN we then (Inr (Some []), h')
        else
        case newDate_getTime_throwing parse (startField (h' dateRangeToSplit)) of
          Inl e \<Rightarrow> (Inl e, h')
        | Inr ss \<Rightarrow>
        if isNaN ss then (Inr (Some []), h')
        else
        case newDate_getTime_throwing parse (endField (h' dateRangeToSplit)) of
          Inl e \<Rightarrow> (Inl e, h')
        | Inr se \<Rightarrow>
        if isNaN se then (Inr (Some []), h')
        \<comment> \<open>lines 253-258: branch 1\<close>
        else if num_lt ws ss \<or> num_gt we (num_add se DAY_IN_MS) then
          if num_lt ws ss \<and> num_le we se then
            (Inr (Some [Some \<lparr>startDate = newDate parse (JNumber (num_add we DAY_IN_MS)),
                              endDate = newDate parse (JNumber se)\<rparr>]), h')
          else if num_ge ws ss \<and> num_le ws se \<and> num_gt we se then
            (Inr (Some [Some \<lparr>startDate = newDate parse (JNumber ss),
                              endDate = newDate parse (JNumber (num_sub ws DAY_IN_MS))\<rparr>]), h')
          else if num_lt ws ss \<and> num_gt we se then
            (Inr (Some [Some \<lparr>startDate = newDate parse (JNumber ss),
                              endDate = newDate parse (JNumber se)\<rparr>]), h')
          else (Inr None, h')
        \<comment> \<open>lines 326-401: branch 2\<close>
        else
          if num_eq ws ss \<and> num_eq we se then (Inr (Some [None]), h')
          else if num_eq ws ss then
            (Inr (Some [Some \<lparr>startDate = newDate parse (JNumber (num_add we DAY_IN_MS)),
                              endDate = newDate parse (JNumber se)\<rparr>]), h')
          else if num_eq we se then
            (Inr (Some [Some \<lparr>startDate = newDate parse (JNumber ss),
                              endDate = newDate parse (JNumber (num_sub ws DAY_IN_MS))\<rparr>]), h')
          else
            (Inr (Some [Some \<lparr>startDate = newDate parse (JNumber ss),
                              endDate = newDate parse (JNumber (num_sub ws DAY_IN_MS))\<rparr>,
                        Some \<lparr>startDate = newDate parse (JNumber (num_add we DAY_IN_MS)),
                              endDate = newDate parse (JNumber se)\<rparr>]), h'))"

text \<open>
  The store of \<open>dateRangeSplitter\<close> that a store of fields stands for when its fields are
  convertible.
\<close>

fun plain :: "jsfield \<Rightarrow> jsval" where
  "plain (Convertible v) = v"
| "plain _ = JUndefined"

definition plain_store :: "'a fieldStore \<Rightarrow> 'a store" where
  "plain_store h r =
     \<lparr>startDate = plain (startField (h r)), endDate = plain (endField (h r)),
      \<dots> = fieldRange.more (h r)\<rparr>"

section \<open>Notions used to state the properties\<close>

text \<open>The timestamps that \<^verbatim>\<open>new Date(...).getTime()\<close> finds in an object of the store.\<close>

definition startTime :: "dateParse \<Rightarrow> 'a store \<Rightarrow> ref \<Rightarrow> jsnum" where
  "startTime parse h r = newDate_getTime parse (startDate (h r))"

definition endTime :: "dateParse \<Rightarrow> 'a store \<Rightarrow> ref \<Rightarrow> jsnum" where
  "endTime parse h r = newDate_getTime parse (endDate (h r))"

text \<open>The store after both date properties of one object were replaced by their timestamps.\<close>

definition to_timestamps :: "dateParse \<Rightarrow> ref \<Rightarrow> 'a store \<Rightarrow> 'a store" where
  "to_timestamps parse r h =
     h(r := (h r)\<lparr>startDate := JNumber (newDate_getTime parse (startDate (h r))),
                  endDate := JNumber (newDate_getTime parse (endDate (h r)))\<rparr>)"

text \<open>The three tests of \<^verbatim>\<open>dateRangeOverlaps\<close> on four timestamps.\<close>

definition overlap_test :: "jsnum \<Rightarrow> jsnum \<Rightarrow> jsnum \<Rightarrow> jsnum \<Rightarrow> bool" where
  "overlap_test s1 e1 s2 e2 =
     ((num_le s1 s2 \<and> num_le s2 e1) \<or> (num_le s1 e2 \<and> num_le e2 e1) \<or>
      (num_lt s2 s1 \<and> num_lt e1 e2))"

section \<open>Example inputs\<close>

text \<open>
  A \<^verbatim>\<open>Date.parse\<close> that knows the date strings of the examples (a date-only ISO string
  is midnight UTC of that day) and rejects the other strings.
\<close>

definition example_parse :: dateParse where
  "example_parse s =
     (if s = ''2024-01-01'' then Fin 1704067200000
      else if s = ''2024-01-03'' then Fin 1704240000000
      else if s = ''2024-01-04'' then Fin 1704326400000
      else if s = ''2024-01-06'' then Fin 1704499200000
      else if s = ''2024-01-07'' then Fin 1704585600000
      else if s = ''2024-01-10'' then Fin 1704844800000
      else if s = ''2024-01-11'' then Fin 1704931200000
      else if s = ''2024-01-12'' then Fin 1705017600000
      else NaN)"

definition string_range :: "string \<Rightarrow> string \<Rightarrow> dateRange" where
  "string_range s e = \<lparr>startDate = JString s, endDate = JString e\<rparr>"

definition date_range :: "jsnum \<Rightarrow> jsnum \<Rightarrow> dateRange" where
  "date_range s e = \<lparr>startDate = JDate s, endDate = JDate e\<rparr>"

text \<open>A store holding the listed objects at the references \<open>0, 1, ...\<close>.\<close>

definition store_of :: "dateRange list \<Rightarrow> unit store" where
  "store_of xs r = (if r < length xs then xs ! r else \<lparr>startDate = JUndefined, endDate = JUndefined\<rparr>)"

text \<open>A store of fields holding the listed objects at the references \<open>0, 1, ...\<close>.\<close>

definition fieldStore_of :: "fieldRange list \<Rightarrow> unit fieldStore" where
  "fieldStore_of xs r =
     (if r < length xs then xs ! r
      else \<lparr>startField = Convertible JUndefined, endField = Convertible JUndefined\<rparr>)"

definition string_fields :: "string \<Rightarrow> string \<Rightarrow> fieldRange" where
  "string_fields s e =
     \<lparr>startField = Convertible (JString s), endField = Convertible (JString e)\<rparr>"

section \<open>Facts about timestamps\<close>

lemma timeClip_idem: "timeClip (timeClip t) = timeClip t"
  by (cases t) simp_all

lemma timeClip_Fin_iff:
  "timeClip t = Fin n \<longleftrightarrow> t = Fin n \<and> \<bar>n\<bar> \<le> 8640000000000000"
  by (cases t) auto

lemma timeClip_in_range: "\<bar>n\<bar> \<le> 8640000000000000 \<Longrightarrow> timeClip (Fin n) = Fin n"
  by simp

lemma newDate_getTime_clipped:
  "timeClip (newDate_getTime parse v) = newDate_getTime parse v"
  by (cases v) (simp_all add: timeClip_idem)

lemma newDate_getTime_bound:
  "newDate_getTime parse v = Fin n \<Longrightarrow> \<bar>n\<bar> \<le> 8640000000000000"
  using newDate_getTime_clipped [of parse v] timeClip_Fin_iff [of "Fin n" n]
  by (simp del: timeClip.simps)

lemma newDate_getTime_number:
  "newDate_getTime parse (JNumber (newDate_getTime parse v)) = newDate_getTime parse v"
  by (simp add: newDate_getTime_clipped)

lemma dround_exact: "\<bar>x\<bar> \<le> 9007199254740992 \<Longrightarrow> dround x = x"
  by (simp add: dround_def)

section \<open>What dateRangeOverlaps computes and what it changes\<close>

lemma to_timestamps_startTime:
  "startTime parse (to_timestamps parse r h) x = startTime parse h x"
  by (simp add: startTime_def to_timestamps_def newDate_getTime_clipped)

lemma to_timestamps_endTime:
  "endTime parse (to_timestamps parse r h) x = endTime parse h x"
  by (simp add: endTime_def to_timestamps_def newDate_getTime_clipped)

lemma set_startDate_endDate:
  "set_endDate r (JNumber (newDate_getTime parse (endDate (set_startDate r v h r))))
     (set_startDate r v h) =
   h(r := (h r)\<lparr>startDate := v, endDate := JNumber (newDate_getTime parse (endDate (h r)))\<rparr>)"
  by (simp add: set_startDate_def set_endDate_def)

lemma dateRangeOverlaps_snd_assignments:
  "snd (dateRangeOverlaps parse a b h) =
     (let h2 = set_endDate a (JNumber (newDate_getTime parse (endDate
                (set_startDate a (JNumber (newDate_getTime parse (startDate (h a)))) h a))))
                (set_startDate a (JNumber (newDate_getTime parse (startDate (h a)))) h)
      in set_endDate b (JNumber (newDate_getTime parse (endDate
                (set_startDate b (JNumber (newDate_getTime parse (startDate (h2 b)))) h2 b))))
                (set_startDate b (JNumber (newDate_getTime parse (startDate (h2 b)))) h2))"
  by (simp add: dateRangeOverlaps_def Let_def)

lemma dateRangeOverlaps_snd:
  "snd (dateRangeOverlaps parse a b h) = to_timestamps parse b (to_timestamps parse a h)"
  unfolding dateRangeOverlaps_snd_assignments Let_def set_startDate_endDate to_timestamps_def
  by simp

lemma dateRangeOverlaps_fst:
  "fst (dateRangeOverlaps parse a b h) =
     overlap_test (startTime parse h a) (endTime parse h a)
       (startTime parse h b) (endTime parse h b)"
  by (cases "a = b")
     (auto simp: dateRangeOverlaps_def Let_def overlap_test_def startTime_def endTime_def
        set_startDate_def set_endDate_def newDate_getTime_clipped)

lemma dateRangeOverlaps_eq:
  "dateRangeOverlaps parse a b h =
     (overlap_test (startTime parse h a) (endTime parse h a)
        (startTime parse h b) (endTime parse h b),
      to_timestamps parse b (to_timestamps parse a h))"
  using dateRangeOverlaps_fst [of parse a b h] dateRangeOverlaps_snd [of parse a b h]
  by (simp add: prod_eq_iff)

lemma startTime_bound: "startTime parse h r = Fin n \<Longrightarrow> \<bar>n\<bar> \<le> 8640000000000000"
  unfolding startTime_def by (rule newDate_getTime_bound)

lemma endTime_bound: "endTime parse h r = Fin n \<Longrightarrow> \<bar>n\<bar> \<le> 8640000000000000"
  unfolding endTime_def by (rule newDate_getTime_bound)

section \<open>dateRangeSplitter in terms of the four timestamps\<close>

text \<open>
  The result of \<open>dateRangeSplitter\<close> written with the timestamps of the objects as they
  were when the function was called.
\<close>

lemma dateRangeSplitter_times:
  "dateRangeSplitter parse s w h =
     (if \<not> truthy (startDate (h s)) \<or> \<not> truthy (endDate (h s)) \<or>
         \<not> truthy (startDate (h w)) \<or> \<not> truthy (endDate (h w))
      then (Some [], h)
      else
        let h' = to_timestamps parse w (to_timestamps parse s h);
            ws = startTime parse h w; we = endTime parse h w;
            ss = startTime parse h s; se = endTime parse h s
        in if \<not> overlap_test ss se ws we then (Some [], h')
           else if num_gt ws we then (Some [], h')
           else if isNaN ws \<or> isNaN we \<or> isNaN ss \<or> isNaN se then (Some [], h')
           else if num_lt ws ss \<or> num_gt we (num_add se DAY_IN_MS) then
             if num_lt ws ss \<and> num_le we se then
               (Some [Some \<lparr>startDate = JDate (timeClip (num_add we DAY_IN_MS)),
                            endDate = JDate se\<rparr>], h')
             else if num_ge ws ss \<and> num_le ws se \<and> num_gt we se then
               (Some [Some \<lparr>startDate = JDate ss,
                            endDate = JDate (timeClip (num_sub ws DAY_IN_MS))\<rparr>], h')
             else if num_lt ws ss \<and> num_gt we se then
               (Some [Some \<lparr>startDate = JDate ss, endDate = JDate se\<rparr>], h')
             else (None, h')
           else
             if num_eq ws ss \<and> num_eq we se then (Some [None], h')
             else if num_eq ws ss then
               (Some [Some \<lparr>startDate = JDate (timeClip (num_add we DAY_IN_MS)),
                            endDate = JDate se\<rparr>], h')
             else if num_eq we se then
               (Some [Some \<lparr>startDate = JDate ss,
                            endDate = JDate (timeClip (num_sub ws DAY_IN_MS))\<rparr>], h')
             else
               (Some [Some \<lparr>startDate = JDate ss,
                            endDate = JDate (timeClip (num_sub ws DAY_IN_MS))\<rparr>,
                      Some \<lparr>startDate = JDate (timeClip (num_add we DAY_IN_MS)),
                            endDate = JDate se\<rparr>], h'))"
proof -
  have t: "timeClip (startTime parse h r) = startTime parse h r"
       "timeClip (endTime parse h r) = endTime parse h r" for r
    by (simp_all add: startTime_def endTime_def newDate_getTime_clipped)
  have n: "newDate_getTime parse (startDate (to_timestamps parse w (to_timestamps parse s h) r))
             = startTime parse h r"
       "newDate_getTime parse (endDate (to_timestamps parse w (to_timestamps parse s h) r))
             = endTime parse h r" for r
    by (simp_all add: startTime_def [symmetric] endTime_def [symmetric]
          to_timestamps_startTime to_timestamps_endTime)
  show ?thesis
    unfolding dateRangeSplitter_def dateRangeOverlaps_eq
    by (simp add: Let_def newDate_def n t)
qed

lemma day_exact_add:
  "\<bar>n\<bar> \<le> 8640000000000000 \<Longrightarrow> num_add (Fin n) DAY_IN_MS = Fin (n + 86400000)"
  by (simp add: DAY_IN_MS_def dround_def)

lemma day_exact_sub:
  "\<bar>n\<bar> \<le> 8640000000000000 \<Longrightarrow> num_sub (Fin n) DAY_IN_MS = Fin (n - 86400000)"
  by (simp add: DAY_IN_MS_def dround_def)

section \<open>dateRangeSplitter: the withdrawn range engulfs the range to split\<close>

text \<open>
  Claim C1. When all four dates are present and parse, the range to withdraw is ordered,
  starts strictly before the range to split and ends strictly after it, the function
  returns an array of one range whose dates are those of the range to split. (The range
  to split need not be ordered for this.)
\<close>

theorem dateRangeSplitter_superset:
  assumes "truthy (startDate (h split))" and "truthy (endDate (h split))"
    and "truthy (startDate (h withdraw))" and "truthy (endDate (h withdraw))"
    and "startTime parse h split = Fin ss" and "endTime parse h split = Fin se"
    and "startTime parse h withdraw = Fin ws" and "endTime parse h withdraw = Fin we"
    and "ws \<le> we" and "ws < ss" and "se < we"
  shows "fst (dateRangeSplitter parse split withdraw h) =
           Some [Some \<lparr>startDate = JDate (Fin ss), endDate = JDate (Fin se)\<rparr>]"
  using assms endTime_bound [of parse h split se]
  by (simp add: dateRangeSplitter_times Let_def overlap_test_def day_exact_add)

theorem dateRangeSplitter_superset_witness:
  "fst (dateRangeSplitter example_parse 0 1
          (store_of [string_range ''2024-01-04'' ''2024-01-06'',
                     string_range ''2024-01-01'' ''2024-01-10''])) =
     Some [Some (date_range (Fin 1704326400000) (Fin 1704499200000))]"
  using dateRangeSplitter_superset
    [where h = "store_of [string_range ''2024-01-04'' ''2024-01-06'',
                          string_range ''2024-01-01'' ''2024-01-10'']"
       and split = 0 and withdraw = 1 and parse = example_parse
       and ss = 1704326400000 and se = 1704499200000
       and ws = 1704067200000 and we = 1704844800000]
  by (simp add: store_of_def string_range_def date_range_def example_parse_def
        startTime_def endTime_def)

section \<open>dateRangeSplitter: the withdrawn range lies strictly inside\<close>

text \<open>
  Claim C3. When all four dates are present and parse, the range to withdraw is ordered,
  starts strictly after the start of the range to split and ends strictly before its
  end, the function returns two ranges in this order: from the start of the range to
  split to the date built from the start of the withdrawal minus one day, and from the
  date built from the end of the withdrawal plus one day to the end of the range to
  split. The two inner dates are built by the \<^verbatim>\<open>Date\<close> constructor, that is by
  \<open>timeClip\<close>, from the millisecond values; the second part of the statement spells
  them out for values within the range of \<^verbatim>\<open>Date\<close>, the only ones that are dates.
\<close>

theorem dateRangeSplitter_interior:
  assumes "truthy (startDate (h split))" and "truthy (endDate (h split))"
    and "truthy (startDate (h withdraw))" and "truthy (endDate (h withdraw))"
    and "startTime parse h split = Fin ss" and "endTime parse h split = Fin se"
    and "startTime parse h withdraw = Fin ws" and "endTime parse h withdraw = Fin we"
    and "ws \<le> we" and "ss < ws" and "we < se"
  shows "fst (dateRangeSplitter parse split withdraw h) =
           Some [Some \<lparr>startDate = JDate (Fin ss),
                        endDate = JDate (timeClip (Fin (ws - 86400000)))\<rparr>,
                 Some \<lparr>startDate = JDate (timeClip (Fin (we + 86400000))),
                        endDate = JDate (Fin se)\<rparr>] \<and>
         (- 8640000000000000 \<le> ws - 86400000 \<and> we + 86400000 \<le> 8640000000000000 \<longrightarrow>
          fst (dateRangeSplitter parse split withdraw h) =
            Some [Some \<lparr>startDate = JDate (Fin ss), endDate = JDate (Fin (ws - 86400000))\<rparr>,
                  Some \<lparr>startDate = JDate (Fin (we + 86400000)), endDate = JDate (Fin se)\<rparr>])"
proof -
  have bounds: "\<bar>se\<bar> \<le> 8640000000000000" "\<bar>ws\<bar> \<le> 8640000000000000"
      "\<bar>we\<bar> \<le> 8640000000000000"
    using assms(6-8) endTime_bound startTime_bound by blast+
  have res: "fst (dateRangeSplitter parse split withdraw h) =
           Some [Some \<lparr>startDate = JDate (Fin ss),
                        endDate = JDate (timeClip (Fin (ws - 86400000)))\<rparr>,
                 Some \<lparr>startDate = JDate (timeClip (Fin (we + 86400000))),
                        endDate = JDate (Fin se)\<rparr>]"
    using assms bounds
    by (simp add: dateRangeSplitter_times Let_def overlap_test_def day_exact_add
          day_exact_sub del: timeClip.simps)
  have "timeClip (Fin (ws - 86400000)) = Fin (ws - 86400000)"
    if "- 8640000000000000 \<le> ws - 86400000"
    using that bounds by simp
  moreover have "timeClip (Fin (we + 86400000)) = Fin (we + 86400000)"
    if "we + 86400000 \<le> 8640000000000000"
    using that bounds by simp
  ultimately show ?thesis
    using res by simp
qed

theorem dateRangeSplitter_interior_witness:
  "fst (dateRangeSplitter example_parse 0 1
          (store_of [string_range ''2024-01-01'' ''2024-01-10'',
                     string_range ''2024-01-04'' ''2024-01-06''])) =
     Some [Some (date_range (example_parse ''2024-01-01'') (example_parse ''2024-01-03'')),
           Some (date_range (example_parse ''2024-01-07'') (example_parse ''2024-01-10''))]"
  using dateRangeSplitter_interior
    [where h = "store_of [string_range ''2024-01-01'' ''2024-01-10'',
                          string_range ''2024-01-04'' ''2024-01-06'']"
       and split = 0 and withdraw = 1 and parse = example_parse
       and ss = 1704067200000 and se = 1704844800000
       and ws = 1704326400000 and we = 1704499200000]
  by (simp add: store_of_def string_range_def date_range_def example_parse_def
        startTime_def endTime_def)

section \<open>dateRangeSplitter: the two ranges are equal\<close>

text \<open>
  Claim C4. When all four dates are present and parse, the range to split is ordered and
  the range to withdraw has the same start and the same end, the function returns the
  array holding the single element \<^verbatim>\<open>null\<close>, which is not the empty array. The two
  arguments may be two objects or one and the same object.
\<close>

theorem dateRangeSplitter_equal:
  assumes "truthy (startDate (h split))" and "truthy (endDate (h split))"
    and "truthy (startDate (h withdraw))" and "truthy (endDate (h withdraw))"
    and "startTime parse h split = Fin ss" and "endTime parse h split = Fin se"
    and "startTime parse h withdraw = Fin ss" and "endTime parse h withdraw = Fin se"
    and "ss \<le> se"
  shows "fst (dateRangeSplitter parse split withdraw h) = Some [None] \<and>
         fst (dateRangeSplitter parse split withdraw h) \<noteq> Some []"
  using assms endTime_bound [of parse h split se]
  by (simp add: dateRangeSplitter_times Let_def overlap_test_def day_exact_add)

theorem dateRangeSplitter_equal_witness:
  "fst (dateRangeSplitter example_parse 0 1
          (store_of [string_range ''2024-01-01'' ''2024-01-10'',
                     string_range ''2024-01-01'' ''2024-01-10''])) = Some [None] \<and>
   fst (dateRangeSplitter example_parse 0 0
          (store_of [string_range ''2024-01-01'' ''2024-01-10''])) = Some [None]"
  using dateRangeSplitter_equal
    [where h = "store_of [string_range ''2024-01-01'' ''2024-01-10'',
                          string_range ''2024-01-01'' ''2024-01-10'']"
       and split = 0 and withdraw = 1 and parse = example_parse
       and ss = 1704067200000 and se = 1704844800000]
    dateRangeSplitter_equal
    [where h = "store_of [string_range ''2024-01-01'' ''2024-01-10'']"
       and split = 0 and withdraw = 0 and parse = example_parse
       and ss = 1704067200000 and se = 1704844800000]
  by (simp add: store_of_def string_range_def example_parse_def startTime_def endTime_def)

section \<open>dateRangeSplitter: a withdrawal that ends one day after the range to split\<close>

text \<open>
  Claim C6. There are present, parsing, ordered and overlapping inputs for which the
  returned range starts after it ends. Whenever the withdrawal starts with the range to
  split and ends exactly one day after it, the guard of the first branch is false
  (the end is not more than one day past), the second case of the second branch is
  taken, and the single range returned runs from two days after the end of the range to
  split to that end. (The date two days after is assumed to be within the range of
  \<^verbatim>\<open>Date\<close>.)
\<close>

theorem dateRangeSplitter_inverted:
  assumes "truthy (startDate (h split))" and "truthy (endDate (h split))"
    and "truthy (startDate (h withdraw))" and "truthy (endDate (h withdraw))"
    and "startTime parse h split = Fin ss" and "endTime parse h split = Fin se"
    and "startTime parse h withdraw = Fin ss"
    and "endTime parse h withdraw = Fin (se + 86400000)"
    and "ss \<le> se" and "se + 172800000 \<le> 8640000000000000"
  shows "fst (dateRangeOverlaps parse split withdraw h) \<and>
         (\<exists>r. fst (dateRangeSplitter parse split withdraw h) = Some [Some r] \<and>
              startDate r = JDate (Fin (se + 172800000)) \<and>
              endDate r = JDate (Fin se) \<and>
              num_gt (newDate_getTime parse (startDate r))
                     (newDate_getTime parse (endDate r)))"
  using assms endTime_bound [of parse h split se]
    endTime_bound [of parse h withdraw "se + 86400000"]
  by (simp add: dateRangeSplitter_times dateRangeOverlaps_fst Let_def overlap_test_def
        day_exact_add)

theorem dateRangeSplitter_inverted_witness:
  "fst (dateRangeSplitter example_parse 0 1
          (store_of [string_range ''2024-01-01'' ''2024-01-10'',
                     string_range ''2024-01-01'' ''2024-01-11''])) =
     Some [Some (date_range (example_parse ''2024-01-12'') (example_parse ''2024-01-10''))]"
  using dateRangeSplitter_inverted
    [where h = "store_of [string_range ''2024-01-01'' ''2024-01-10'',
                          string_range ''2024-01-01'' ''2024-01-11'']"
       and split = 0 and withdraw = 1 and parse = example_parse
       and ss = 1704067200000 and se = 1704844800000]
  by (auto simp add: store_of_def string_range_def date_range_def example_parse_def
        startTime_def endTime_def)

section \<open>dateRangeSplitter: the shapes of the result\<close>

lemma dateRangeSplitter_shape:
  "fst (dateRangeSplitter parse split withdraw h) = Some [] \<or>
   fst (dateRangeSplitter parse split withdraw h) = Some [None] \<or>
   (\<exists>r. fst (dateRangeSplitter parse split withdraw h) = Some [Some r]) \<or>
   (\<exists>r1 r2. fst (dateRangeSplitter parse split withdraw h) = Some [Some r1, Some r2])"
proof (cases "isNaN (startTime parse h withdraw) \<or> isNaN (endTime parse h withdraw) \<or>
              isNaN (startTime parse h split) \<or> isNaN (endTime parse h split)")
  case True
  then show ?thesis by (simp add: dateRangeSplitter_times Let_def)
next
  case False
  then obtain ws we ss se where t: "startTime parse h withdraw = Fin ws"
      "endTime parse h withdraw = Fin we" "startTime parse h split = Fin ss"
      "endTime parse h split = Fin se"
    by (metis isNaN.elims(3))
  have b: "num_add (Fin se) DAY_IN_MS = Fin (se + 86400000)"
    using endTime_bound [OF t(4)] by (rule day_exact_add)
  show ?thesis
    unfolding dateRangeSplitter_times Let_def t b overlap_test_def
    by (simp del: timeClip.simps)
qed

text \<open>
  On fields that \<^verbatim>\<open>new Date\<close> converts, the result of \<open>dateRangeSplitter\<close> is never
  \<^verbatim>\<open>undefined\<close> (the end of the first branch is not reached once the checks have
  passed): it is the empty array, the array holding \<^verbatim>\<open>null\<close>, an array of one range
  or an array of two ranges. It is the empty array whenever a date field is falsy, the
  two ranges do not overlap, the withdrawal starts after it ends, or one of the four
  dates does not parse.
\<close>

lemma dateRangeSplitter_result_shapes:
  "(fst (dateRangeSplitter parse split withdraw h) = Some [] \<or>
    fst (dateRangeSplitter parse split withdraw h) = Some [None] \<or>
    (\<exists>r. fst (dateRangeSplitter parse split withdraw h) = Some [Some r]) \<or>
    (\<exists>r1 r2. fst (dateRangeSplitter parse split withdraw h) = Some [Some r1, Some r2])) \<and>
   (\<not> truthy (startDate (h split)) \<or> \<not> truthy (endDate (h split)) \<or>
    \<not> truthy (startDate (h withdraw)) \<or> \<not> truthy (endDate (h withdraw))
      \<longrightarrow> fst (dateRangeSplitter parse split withdraw h) = Some []) \<and>
   (\<not> fst (dateRangeOverlaps parse split withdraw h)
      \<longrightarrow> fst (dateRangeSplitter parse split withdraw h) = Some []) \<and>
   (num_gt (startTime parse h withdraw) (endTime parse h withdraw)
      \<longrightarrow> fst (dateRangeSplitter parse split withdraw h) = Some []) \<and>
   (isNaN (startTime parse h split) \<or> isNaN (endTime parse h split) \<or>
    isNaN (startTime parse h withdraw) \<or> isNaN (endTime parse h withdraw)
      \<longrightarrow> fst (dateRangeSplitter parse split withdraw h) = Some [])"
proof -
  have invalid: "fst (dateRangeSplitter parse split withdraw h) = Some []"
    if "\<not> truthy (startDate (h split)) \<or> \<not> truthy (endDate (h split)) \<or>
        \<not> truthy (startDate (h withdraw)) \<or> \<not> truthy (endDate (h withdraw))"
    using that by (simp add: dateRangeSplitter_times)
  have apart: "fst (dateRangeSplitter parse split withdraw h) = Some []"
    if "\<not> fst (dateRangeOverlaps parse split withdraw h)"
    using that by (simp add: dateRangeSplitter_times dateRangeOverlaps_fst Let_def)
  have reversed: "fst (dateRangeSplitter parse split withdraw h) = Some []"
    if "num_gt (startTime parse h withdraw) (endTime parse h withdraw)"
    using that by (simp add: dateRangeSplitter_times Let_def)
  have malformed: "fst (dateRangeSplitter parse split withdraw h) = Some []"
    if "isNaN (startTime parse h split) \<or> isNaN (endTime parse h split) \<or>
        isNaN (startTime parse h withdraw) \<or> isNaN (endTime parse h withdraw)"
  proof -
    have "(if isNaN (startTime parse h withdraw) \<or> isNaN (endTime parse h withdraw) \<or>
              isNaN (startTime parse h split) \<or> isNaN (endTime parse h split)
           then x else y) = x" for x y :: "dateRange option list option \<times> 'a store"
      using that by presburger
    then show ?thesis by (simp add: dateRangeSplitter_times Let_def)
  qed
  from dateRangeSplitter_shape [of parse split withdraw h] invalid apart reversed malformed
  show ?thesis by blast
qed

section \<open>dateRangeSplitter on fields of any kind\<close>

text \<open>
  On objects whose four date fields are convertible, the functions on fields of any kind
  return what \<open>dateRangeOverlaps\<close> and \<open>dateRangeSplitter\<close> return on these fields, and
  throw nothing.
\<close>

lemma dateRangeOverlaps_throwing_agrees:
  assumes "startField (H a) = Convertible (startDate (h a))"
    and "endField (H a) = Convertible (endDate (h a))"
    and "startField (H b) = Convertible (startDate (h b))"
    and "endField (H b) = Convertible (endDate (h b))"
  shows "fst (dateRangeOverlaps_throwing parse a b H) = Inr (fst (dateRangeOverlaps parse a b h))"
    and "startField (snd (dateRangeOverlaps_throwing parse a b H) a) =
           Convertible (JNumber (startTime parse h a))"
    and "endField (snd (dateRangeOverlaps_throwing parse a b H) a) =
           Convertible (JNumber (endTime parse h a))"
    and "startField (snd (dateRangeOverlaps_throwing parse a b H) b) =
           Convertible (JNumber (startTime parse h b))"
    and "endField (snd (dateRangeOverlaps_throwing parse a b H) b) =
           Convertible (JNumber (endTime parse h b))"
  using assms
  by (cases "a = b";
      simp add: dateRangeOverlaps_throwing_def dateRangeOverlaps_fst overlap_test_def Let_def
        startTime_def endTime_def newDate_getTime_clipped)+

text \<open>The first field that cannot be converted makes \<^verbatim>\<open>dateRangeOverlaps\<close> throw.\<close>

lemma dateRangeOverlaps_throwing_throws:
  assumes "\<not> (convertible (startField (H a)) \<and> convertible (endField (H a)) \<and>
              convertible (startField (H b)) \<and> convertible (endField (H b)))"
  shows "fst (dateRangeOverlaps_throwing parse a b H) = Inl TypeError"
  using assms
  by (cases "a = b"; cases "startField (H a)"; cases "endField (H a)";
      cases "startField (H b)"; cases "endField (H b)";
      simp add: dateRangeOverlaps_throwing_def Let_def)

lemma isNaN_tests_in_turn:
  "(if a \<or> b then x else if c then x else if d then x else y) =
   (if a \<or> b \<or> c \<or> d then x else y)"
  by simp

lemma dateRangeSplitter_throwing_agrees:
  assumes "startField (H s) = Convertible (startDate (h s))"
    and "endField (H s) = Convertible (endDate (h s))"
    and "startField (H w) = Convertible (startDate (h w))"
    and "endField (H w) = Convertible (endDate (h w))"
  shows "fst (dateRangeSplitter_throwing parse s w H) = Inr (fst (dateRangeSplitter parse s w h))"
proof -
  obtain r H' where d: "dateRangeOverlaps_throwing parse s w H = (r, H')"
    by (cases "dateRangeOverlaps_throwing parse s w H")
  have r: "r = Inr (overlap_test (startTime parse h s) (endTime parse h s)
                      (startTime parse h w) (endTime parse h w))"
    using dateRangeOverlaps_throwing_agrees(1) [OF assms, of parse] d
    by (simp add: dateRangeOverlaps_fst)
  have f: "startField (H' s) = Convertible (JNumber (startTime parse h s))"
      "endField (H' s) = Convertible (JNumber (endTime parse h s))"
      "startField (H' w) = Convertible (JNumber (startTime parse h w))"
      "endField (H' w) = Convertible (JNumber (endTime parse h w))"
    using dateRangeOverlaps_throwing_agrees(2-5) [OF assms, of parse] d by simp_all
  have t: "timeClip (startTime parse h x) = startTime parse h x"
       "timeClip (endTime parse h x) = endTime parse h x" for x
    by (simp_all add: startTime_def endTime_def newDate_getTime_clipped)
  show ?thesis
    unfolding dateRangeSplitter_throwing_def dateRangeSplitter_times d r
    using assms
    by (simp add: f t Let_def newDate_def isNaN_tests_in_turn del: timeClip.simps)
qed

lemma dateRangeSplitter_throwing_throws:
  assumes "truthy_field (startField (H s))" and "truthy_field (endField (H s))"
    and "truthy_field (startField (H w))" and "truthy_field (endField (H w))"
    and "\<not> (convertible (startField (H s)) \<and> convertible (endField (H s)) \<and>
            convertible (startField (H w)) \<and> convertible (endField (H w)))"
  shows "fst (dateRangeSplitter_throwing parse s w H) = Inl TypeError"
proof -
  obtain r H' where d: "dateRangeOverlaps_throwing parse s w H = (r, H')"
    by (cases "dateRangeOverlaps_throwing parse s w H")
  have "r = Inl TypeError"
    using dateRangeOverlaps_throwing_throws [OF assms(5), of parse] d by simp
  with d assms(1-4) show ?thesis
    by (simp add: dateRangeSplitter_throwing_def)
qed

lemma plain_store_fields:
  "convertible (startField (H r)) \<Longrightarrow>
     startField (H r) = Convertible (startDate (plain_store H r))"
  "convertible (endField (H r)) \<Longrightarrow>
     endField (H r) = Convertible (endDate (plain_store H r))"
  by (cases "startField (H r)"; cases "endField (H r)"; simp add: plain_store_def)+

text \<open>
  Claim C2, as amended. Whatever the four date fields hold:
  \<^item> when one of them is missing (falsy), the result is the empty array;
  \<^item> when all four are present and one of them is a value that \<^verbatim>\<open>new Date\<close> cannot
    convert (a \<^verbatim>\<open>Symbol\<close>, a \<^verbatim>\<open>BigInt\<close>, an object without primitive value), the call
    throws a \<^verbatim>\<open>TypeError\<close>;
  \<^item> when all four are convertible, no exception is raised and the result is one of
    four shapes: the empty array, the array holding \<^verbatim>\<open>null\<close>, one range, two ranges
    (never \<^verbatim>\<open>undefined\<close>); it is the empty array when the ranges do not overlap, when
    the withdrawal starts after it ends, and when one of the four dates does not parse.
\<close>

theorem dateRangeSplitter_throwing_outcomes:
  "(\<not> truthy_field (startField (h split)) \<or> \<not> truthy_field (endField (h split)) \<or>
    \<not> truthy_field (startField (h withdraw)) \<or> \<not> truthy_field (endField (h withdraw))
      \<longrightarrow> fst (dateRangeSplitter_throwing parse split withdraw h) = Inr (Some [])) \<and>
   (truthy_field (startField (h split)) \<and> truthy_field (endField (h split)) \<and>
    truthy_field (startField (h withdraw)) \<and> truthy_field (endField (h withdraw)) \<and>
    \<not> (convertible (startField (h split)) \<and> convertible (endField (h split)) \<and>
        convertible (startField (h withdraw)) \<and> convertible (endField (h withdraw)))
      \<longrightarrow> fst (dateRangeSplitter_throwing parse split withdraw h) = Inl TypeError) \<and>
   (convertible (startField (h split)) \<and> convertible (endField (h split)) \<and>
    convertible (startField (h withdraw)) \<and> convertible (endField (h withdraw))
      \<longrightarrow>
      (fst (dateRangeSplitter_throwing parse split withdraw h) = Inr (Some []) \<or>
       fst (dateRangeSplitter_throwing parse split withdraw h) = Inr (Some [None]) \<or>
       (\<exists>r. fst (dateRangeSplitter_throwing parse split withdraw h) = Inr (Some [Some r])) \<or>
       (\<exists>r1 r2. fst (dateRangeSplitter_throwing parse split withdraw h) =
                   Inr (Some [Some r1, Some r2]))) \<and>
      (fst (dateRangeOverlaps_throwing parse split withdraw h) = Inr False
         \<longrightarrow> fst (dateRangeSplitter_throwing parse split withdraw h) = Inr (Some [])) \<and>
      (\<forall>ws we. newDate_getTime_throwing parse (startField (h withdraw)) = Inr ws \<and>
               newDate_getTime_throwing parse (endField (h withdraw)) = Inr we \<and>
               num_gt ws we
         \<longrightarrow> fst (dateRangeSplitter_throwing parse split withdraw h) = Inr (Some [])) \<and>
      (newDate_getTime_throwing parse (startField (h split)) = Inr NaN \<or>
       newDate_getTime_throwing parse (endField (h split)) = Inr NaN \<or>
       newDate_getTime_throwing parse (startField (h withdraw)) = Inr NaN \<or>
       newDate_getTime_throwing parse (endField (h withdraw)) = Inr NaN
         \<longrightarrow> fst (dateRangeSplitter_throwing parse split withdraw h) = Inr (Some [])))"
proof (intro conjI impI)
  assume "\<not> truthy_field (startField (h split)) \<or> \<not> truthy_field (endField (h split)) \<or>
    \<not> truthy_field (startField (h withdraw)) \<or> \<not> truthy_field (endField (h withdraw))"
  then show "fst (dateRangeSplitter_throwing parse split withdraw h) = Inr (Some [])"
    by (simp add: dateRangeSplitter_throwing_def)
next
  assume "truthy_field (startField (h split)) \<and> truthy_field (endField (h split)) \<and>
    truthy_field (startField (h withdraw)) \<and> truthy_field (endField (h withdraw)) \<and>
    \<not> (convertible (startField (h split)) \<and> convertible (endField (h split)) \<and>
        convertible (startField (h withdraw)) \<and> convertible (endField (h withdraw)))"
  then show "fst (dateRangeSplitter_throwing parse split withdraw h) = Inl TypeError"
    by (intro dateRangeSplitter_throwing_throws) simp_all
next
  assume c: "convertible (startField (h split)) \<and> convertible (endField (h split)) \<and>
    convertible (startField (h withdraw)) \<and> convertible (endField (h withdraw))"
  let ?p = "plain_store h"
  have f: "startField (h split) = Convertible (startDate (?p split))"
      "endField (h split) = Convertible (endDate (?p split))"
      "startField (h withdraw) = Convertible (startDate (?p withdraw))"
      "endField (h withdraw) = Convertible (endDate (?p withdraw))"
    using c by (simp_all add: plain_store_fields)
  have s: "fst (dateRangeSplitter_throwing parse split withdraw h) =
             Inr (fst (dateRangeSplitter parse split withdraw ?p))"
    using f by (rule dateRangeSplitter_throwing_agrees)
  have o: "fst (dateRangeOverlaps_throwing parse split withdraw h) =
             Inr (fst (dateRangeOverlaps parse split withdraw ?p))"
    using f by (rule dateRangeOverlaps_throwing_agrees(1))
  have t:
    "newDate_getTime_throwing parse (startField (h split)) = Inr (startTime parse ?p split)"
    "newDate_getTime_throwing parse (endField (h split)) = Inr (endTime parse ?p split)"
    "newDate_getTime_throwing parse (startField (h withdraw)) =
       Inr (startTime parse ?p withdraw)"
    "newDate_getTime_throwing parse (endField (h withdraw)) = Inr (endTime parse ?p withdraw)"
    by (simp_all add: f startTime_def endTime_def)
  note n = dateRangeSplitter_result_shapes [of parse split withdraw ?p]
  show "fst (dateRangeSplitter_throwing parse split withdraw h) = Inr (Some []) \<or>
       fst (dateRangeSplitter_throwing parse split withdraw h) = Inr (Some [None]) \<or>
       (\<exists>r. fst (dateRangeSplitter_throwing parse split withdraw h) = Inr (Some [Some r])) \<or>
       (\<exists>r1 r2. fst (dateRangeSplitter_throwing parse split withdraw h) =
                   Inr (Some [Some r1, Some r2]))"
    using n unfolding s by simp
  show "fst (dateRangeSplitter_throwing parse split withdraw h) = Inr (Some [])"
    if "fst (dateRangeOverlaps_throwing parse split withdraw h) = Inr False"
    using n that unfolding s o by simp
  show "\<forall>ws we. newDate_getTime_throwing parse (startField (h withdraw)) = Inr ws \<and>
               newDate_getTime_throwing parse (endField (h withdraw)) = Inr we \<and>
               num_gt ws we
         \<longrightarrow> fst (dateRangeSplitter_throwing parse split withdraw h) = Inr (Some [])"
    using n unfolding s t by simp
  show "fst (dateRangeSplitter_throwing parse split withdraw h) = Inr (Some [])"
    if "newDate_getTime_throwing parse (startField (h split)) = Inr NaN \<or>
       newDate_getTime_throwing parse (endField (h split)) = Inr NaN \<or>
       newDate_getTime_throwing parse (startField (h withdraw)) = Inr NaN \<or>
       newDate_getTime_throwing parse (endField (h withdraw)) = Inr NaN"
  proof -
    have "isNaN (startTime parse ?p split) \<or> isNaN (endTime parse ?p split) \<or>
          isNaN (startTime parse ?p withdraw) \<or> isNaN (endTime parse ?p withdraw)"
      using that unfolding t by auto
    with n show ?thesis unfolding s by blast
  qed
qed

text \<open>
  In turn: a range to split whose start is \<^verbatim>\<open>0n\<close> (missing) and whose end is a
  \<^verbatim>\<open>Symbol\<close>; one whose start is \<^verbatim>\<open>1n\<close>; two ranges of date strings, apart and with a
  reversed withdrawal; a withdrawal whose end is not a date.
\<close>

theorem dateRangeSplitter_throwing_outcomes_witness:
  "fst (dateRangeSplitter_throwing example_parse 0 1
          (fieldStore_of [\<lparr>startField = JBigInt 0, endField = JSymbol\<rparr>,
                          string_fields ''2024-01-04'' ''2024-01-06''])) = Inr (Some []) \<and>
   fst (dateRangeSplitter_throwing example_parse 0 1
          (fieldStore_of [\<lparr>startField = JBigInt 1,
                           endField = Convertible (JString ''2024-01-10'')\<rparr>,
                          string_fields ''2024-01-04'' ''2024-01-06''])) = Inl TypeError \<and>
   fst (dateRangeSplitter_throwing example_parse 0 1
          (fieldStore_of [string_fields ''2024-01-01'' ''2024-01-03'',
                          string_fields ''2024-01-10'' ''2024-01-06''])) = Inr (Some []) \<and>
   fst (dateRangeSplitter_throwing example_parse 0 1
          (fieldStore_of [string_fields ''2024-01-01'' ''2024-01-10'',
                          string_fields ''2024-01-04'' ''not a date''])) = Inr (Some [])"
  using
    dateRangeSplitter_throwing_outcomes
      [where parse = example_parse and split = 0 and withdraw = 1
         and h = "fieldStore_of [\<lparr>startField = JBigInt 0, endField = JSymbol\<rparr>,
                                 string_fields ''2024-01-04'' ''2024-01-06'']"]
    dateRangeSplitter_throwing_outcomes
      [where parse = example_parse and split = 0 and withdraw = 1
         and h = "fieldStore_of [\<lparr>startField = JBigInt 1,
                                  endField = Convertible (JString ''2024-01-10'')\<rparr>,
                                 string_fields ''2024-01-04'' ''2024-01-06'']"]
    dateRangeSplitter_throwing_outcomes
      [where parse = example_parse and split = 0 and withdraw = 1
         and h = "fieldStore_of [string_fields ''2024-01-01'' ''2024-01-03'',
                                 string_fields ''2024-01-10'' ''2024-01-06'']"]
    dateRangeSplitter_throwing_outcomes
      [where parse = example_parse and split = 0 and withdraw = 1
         and h = "fieldStore_of [string_fields ''2024-01-01'' ''2024-01-10'',
                                 string_fields ''2024-01-04'' ''not a date'']"]
  by (simp add: fieldStore_of_def string_fields_def example_parse_def
        dateRangeOverlaps_throwing_def Let_def)

text \<open>
  The claim as first stated (no exception for every pair of ranges) fails: all four
  fields are present, the end of the withdrawal is a \<^verbatim>\<open>Symbol\<close>, and the call throws.
\<close>

theorem dateRangeSplitter_throwing_outcomes_counterexample:
  "truthy_field JSymbol \<and>
   fst (dateRangeSplitter_throwing example_parse 0 1
          (fieldStore_of [string_fields ''2024-01-01'' ''2024-01-10'',
                          \<lparr>startField = Convertible (JString ''2024-01-04''),
                           endField = JSymbol\<rparr>])) = Inl TypeError"
  by (simp add: dateRangeSplitter_throwing_def dateRangeOverlaps_throwing_def Let_def
        fieldStore_of_def string_fields_def example_parse_def)

section \<open>dateRangeOverlaps: symmetry\<close>

text \<open>
  On two ranges that parse and are both ordered the three tests together are the usual
  intersection test, which is symmetric.
\<close>

lemma dateRangeOverlaps_symmetric_if_ordered:
  assumes "startTime parse h a = Fin sa" and "endTime parse h a = Fin ea"
    and "startTime parse h b = Fin sb" and "endTime parse h b = Fin eb"
    and "sa \<le> ea" and "sb \<le> eb"
  shows "fst (dateRangeOverlaps parse a b h) = fst (dateRangeOverlaps parse b a h)"
    and "fst (dateRangeOverlaps parse a b h) \<longleftrightarrow> sa \<le> eb \<and> sb \<le> ea"
  using assms by (auto simp add: dateRangeOverlaps_fst overlap_test_def)

text \<open>
  Claim C5. \<open>dateRangeOverlaps\<close> is not symmetric: there are two ranges, all of whose
  dates are present and parse, on which the result depends on the order of the
  arguments. The first range of the example runs from 2024-01-10 back to 2024-01-01,
  the second from 2024-01-04 to 2024-01-06: only the test that the second argument
  strictly contains the first accepts the pair, and only in one order.
\<close>

theorem dateRangeOverlaps_not_symmetric:
  "\<exists>(h :: unit store) a b.
     truthy (startDate (h a)) \<and> truthy (endDate (h a)) \<and>
     truthy (startDate (h b)) \<and> truthy (endDate (h b)) \<and>
     \<not> isNaN (startTime parse h a) \<and> \<not> isNaN (endTime parse h a) \<and>
     \<not> isNaN (startTime parse h b) \<and> \<not> isNaN (endTime parse h b) \<and>
     fst (dateRangeOverlaps parse a b h) \<noteq> fst (dateRangeOverlaps parse b a h)"
proof -
  let ?h = "store_of [date_range (Fin 1704844800000) (Fin 1704067200000),
                      date_range (Fin 1704326400000) (Fin 1704499200000)]"
  have "fst (dateRangeOverlaps parse 0 1 ?h) \<noteq> fst (dateRangeOverlaps parse 1 0 ?h)"
    by (simp add: dateRangeOverlaps_fst overlap_test_def store_of_def date_range_def
          startTime_def endTime_def)
  moreover have "truthy (startDate (?h 0)) \<and> truthy (endDate (?h 0)) \<and>
     truthy (startDate (?h 1)) \<and> truthy (endDate (?h 1)) \<and>
     \<not> isNaN (startTime parse ?h 0) \<and> \<not> isNaN (endTime parse ?h 0) \<and>
     \<not> isNaN (startTime parse ?h 1) \<and> \<not> isNaN (endTime parse ?h 1)"
    by (simp add: store_of_def date_range_def startTime_def endTime_def)
  ultimately show ?thesis by blast
qed

section \<open>dateRangeOverlaps: dates that do not parse\<close>

lemma overlap_test_NaN:
  "overlap_test NaN e1 s2 e2 = False" "overlap_test s1 NaN s2 e2 = False"
  "overlap_test s1 e1 NaN NaN = False"
  "overlap_test s1 e1 s2 NaN = (num_le s1 s2 \<and> num_le s2 e1)"
  "overlap_test s1 e1 NaN e2 = (num_le s1 e2 \<and> num_le e2 e1)"
  by (cases s1; cases e1; cases s2; cases e2; simp add: overlap_test_def)+

text \<open>
  Claim C7, as amended. On date fields that \<^verbatim>\<open>new Date\<close> converts,
  \<open>dateRangeOverlaps\<close> returns false when the start or the end of the first range does
  not parse, and when neither date of the second range parses. When the end of the second range does not parse, the
  result is that of the first test alone (the start of the second range lies within the
  first range); when the start of the second range does not parse, it is that of the
  second test alone (the end of the second range lies within the first range).
\<close>

theorem dateRangeOverlaps_unparseable:
  "(isNaN (startTime parse h a) \<or> isNaN (endTime parse h a) \<or>
    (isNaN (startTime parse h b) \<and> isNaN (endTime parse h b))
      \<longrightarrow> \<not> fst (dateRangeOverlaps parse a b h)) \<and>
   (isNaN (endTime parse h b) \<longrightarrow>
      fst (dateRangeOverlaps parse a b h) =
        (num_le (startTime parse h a) (startTime parse h b) \<and>
         num_le (startTime parse h b) (endTime parse h a))) \<and>
   (isNaN (startTime parse h b) \<longrightarrow>
      fst (dateRangeOverlaps parse a b h) =
        (num_le (startTime parse h a) (endTime parse h b) \<and>
         num_le (endTime parse h b) (endTime parse h a)))"
proof -
  have n: "isNaN x \<longleftrightarrow> x = NaN" for x by (cases x) simp_all
  show ?thesis
    by (auto simp add: dateRangeOverlaps_fst n overlap_test_NaN)
qed

theorem dateRangeOverlaps_unparseable_witness:
  "\<not> fst (dateRangeOverlaps example_parse 0 1
            (store_of [string_range ''not a date'' ''2024-01-10'',
                       string_range ''2024-01-04'' ''2024-01-06''])) \<and>
   fst (dateRangeOverlaps example_parse 0 1
          (store_of [string_range ''2024-01-01'' ''2024-01-10'',
                     string_range ''2024-01-04'' ''not a date''])) \<and>
   fst (dateRangeOverlaps example_parse 0 1
          (store_of [string_range ''2024-01-01'' ''2024-01-10'',
                     string_range ''not a date'' ''2024-01-06'']))"
  using
    dateRangeOverlaps_unparseable
      [where parse = example_parse and a = 0 and b = 1
         and h = "store_of [string_range ''not a date'' ''2024-01-10'',
                            string_range ''2024-01-04'' ''2024-01-06'']"]
    dateRangeOverlaps_unparseable
      [where parse = example_parse and a = 0 and b = 1
         and h = "store_of [string_range ''2024-01-01'' ''2024-01-10'',
                            string_range ''2024-01-04'' ''not a date'']"]
    dateRangeOverlaps_unparseable
      [where parse = example_parse and a = 0 and b = 1
         and h = "store_of [string_range ''2024-01-01'' ''2024-01-10'',
                            string_range ''not a date'' ''2024-01-06'']"]
  by (simp add: store_of_def string_range_def example_parse_def startTime_def endTime_def)

text \<open>
  The claim as first stated fails: the end of the second range is present and does not
  parse, and the function returns true.
\<close>

theorem dateRangeOverlaps_unparseable_counterexample:
  "truthy (endDate (store_of [string_range ''2024-01-01'' ''2024-01-10'',
                              string_range ''2024-01-04'' ''not a date''] 1)) \<and>
   isNaN (newDate_getTime example_parse
            (endDate (store_of [string_range ''2024-01-01'' ''2024-01-10'',
                                string_range ''2024-01-04'' ''not a date''] 1))) \<and>
   fst (dateRangeOverlaps example_parse 0 1
          (store_of [string_range ''2024-01-01'' ''2024-01-10'',
                     string_range ''2024-01-04'' ''not a date''])) = True"
  by (simp add: dateRangeOverlaps_def Let_def set_startDate_def set_endDate_def
        store_of_def string_range_def example_parse_def)

section \<open>checkAvailabibility returns the first overlapping position\<close>

lemma indexOf_from_first:
  "i < length xs \<Longrightarrow> xs ! i = dr \<Longrightarrow> (\<forall>j<i. xs ! j \<noteq> dr) \<Longrightarrow>
   indexOf_from xs dr k = k + int i"
proof (induction xs arbitrary: i k)
  case Nil
  then show ?case by simp
next
  case (Cons x xs)
  show ?case
  proof (cases i)
    case 0
    with Cons.prems show ?thesis by simp
  next
    case (Suc m)
    with Cons.prems have "x \<noteq> dr" by auto
    moreover have "indexOf_from xs dr (k + 1) = k + 1 + int m"
      using Cons.prems Suc by (intro Cons.IH) auto
    ultimately show ?thesis using Suc by simp
  qed
qed

text \<open>
  A call of \<open>dateRangeOverlaps\<close> replaces dates by their timestamps, which later calls
  read as the same timestamps: the calls made earlier in the loop do not change what a
  later call returns.
\<close>

lemma dateRangeOverlaps_fst_after:
  "fst (dateRangeOverlaps parse x b (snd (dateRangeOverlaps parse y c h))) =
   fst (dateRangeOverlaps parse x b h)"
  by (simp add: dateRangeOverlaps_fst dateRangeOverlaps_snd to_timestamps_startTime
        to_timestamps_endTime)

lemma checkAvailabibility_loop_find:
  "fst (checkAvailabibility_loop parse arr rest b h) =
     (case List.find (\<lambda>x. fst (dateRangeOverlaps parse x b h)) rest of
        None \<Rightarrow> -1 | Some x \<Rightarrow> indexOf arr x)"
proof (induction rest arbitrary: h)
  case Nil
  then show ?case by simp
next
  case (Cons dr rest)
  obtain r h' where d: "dateRangeOverlaps parse dr b h = (r, h')"
    by (cases "dateRangeOverlaps parse dr b h")
  show ?case
  proof (cases r)
    case True
    with d show ?thesis by simp
  next
    case False
    have "h' = snd (dateRangeOverlaps parse dr b h)" using d by simp
    then have "(\<lambda>x. fst (dateRangeOverlaps parse x b h')) =
               (\<lambda>x. fst (dateRangeOverlaps parse x b h))"
      by (simp add: dateRangeOverlaps_fst_after)
    with d False Cons.IH [of h'] show ?thesis by simp
  qed
qed

text \<open>
  Claim C8. For every array of ranges and every candidate range, \<open>checkAvailabibility\<close>
  returns \<open>-1\<close> when no element overlaps the candidate according to
  \<open>dateRangeOverlaps\<close> (in particular on the empty array), and otherwise the position of
  the first element that does: that element overlaps and no earlier one does. This
  holds also when the array holds the same object several times or holds the candidate.
\<close>

theorem checkAvailabibility_first_overlap:
  "fst (checkAvailabibility parse [] b h) = -1 \<and>
   ((fst (checkAvailabibility parse arr b h) = -1 \<and>
     (\<forall>i<length arr. \<not> fst (dateRangeOverlaps parse (arr ! i) b h))) \<or>
    (\<exists>i<length arr. fst (checkAvailabibility parse arr b h) = int i \<and>
       fst (dateRangeOverlaps parse (arr ! i) b h) \<and>
       (\<forall>j<i. \<not> fst (dateRangeOverlaps parse (arr ! j) b h))))"
proof -
  let ?P = "\<lambda>x. fst (dateRangeOverlaps parse x b h)"
  have res: "fst (checkAvailabibility parse arr b h) =
          (case List.find ?P arr of None \<Rightarrow> -1 | Some x \<Rightarrow> indexOf arr x)"
    by (simp add: checkAvailabibility_def checkAvailabibility_loop_find)
  have main: "(fst (checkAvailabibility parse arr b h) = -1 \<and>
       (\<forall>i<length arr. \<not> ?P (arr ! i))) \<or>
      (\<exists>i<length arr. fst (checkAvailabibility parse arr b h) = int i \<and>
         ?P (arr ! i) \<and> (\<forall>j<i. \<not> ?P (arr ! j)))"
  proof (cases "List.find ?P arr")
    case None
    then have "\<forall>i<length arr. \<not> ?P (arr ! i)"
      by (simp add: find_None_iff)
    with None res show ?thesis by simp
  next
    case (Some x)
    then obtain i where i: "i < length arr" "?P (arr ! i)" "x = arr ! i"
        "\<forall>j<i. \<not> ?P (arr ! j)"
      unfolding find_Some_iff by blast
    have "\<forall>j<i. arr ! j \<noteq> x"
      using i by metis
    then have "indexOf arr x = int i"
      using i indexOf_from_first [of i arr x 0] by (simp add: indexOf_def)
    with Some res i show ?thesis by auto
  qed
  show ?thesis
    using main by (simp add: checkAvailabibility_def)
qed

text \<open>
  Four ranges at the references 0 to 3, the last being the candidate 2024-01-06 to
  2024-01-10. The array names the second object twice.
\<close>

theorem checkAvailabibility_first_overlap_witness:
  "fst (checkAvailabibility example_parse [0, 1, 1, 2] 3
          (store_of [string_range ''2024-01-01'' ''2024-01-03'',
                     string_range ''2024-01-04'' ''2024-01-07'',
                     string_range ''2024-01-06'' ''2024-01-12'',
                     string_range ''2024-01-06'' ''2024-01-10''])) = 1 \<and>
   fst (checkAvailabibility example_parse [0] 3
          (store_of [string_range ''2024-01-01'' ''2024-01-03'',
                     string_range ''2024-01-04'' ''2024-01-07'',
                     string_range ''2024-01-06'' ''2024-01-12'',
                     string_range ''2024-01-06'' ''2024-01-10''])) = -1"
  using
    checkAvailabibility_first_overlap
      [where parse = example_parse and b = 3 and arr = "[0, 1, 1, 2]"
         and h = "store_of [string_range ''2024-01-01'' ''2024-01-03'',
                            string_range ''2024-01-04'' ''2024-01-07'',
                            string_range ''2024-01-06'' ''2024-01-12'',
                            string_range ''2024-01-06'' ''2024-01-10'']"]
    checkAvailabibility_first_overlap
      [where parse = example_parse and b = 3 and arr = "[0]"
         and h = "store_of [string_range ''2024-01-01'' ''2024-01-03'',
                            string_range ''2024-01-04'' ''2024-01-07'',
                            string_range ''2024-01-06'' ''2024-01-12'',
                            string_range ''2024-01-06'' ''2024-01-10'']"]
  by (simp add: checkAvailabibility_def indexOf_def dateRangeOverlaps_eq overlap_test_def
        store_of_def string_range_def example_parse_def startTime_def endTime_def
        to_timestamps_def)

section \<open>compareDateRanges on dates that do not parse\<close>

text \<open>
  Claim C9. When the four date fields are present (truthy) and none of them parses,
  \<open>compareDateRanges\<close> returns 0: both durations are NaN and both comparisons are
  false. It returns \<^verbatim>\<open>null\<close> exactly when one of the four fields is missing (falsy).
\<close>

theorem compareDateRanges_unparseable:
  "(truthy (startDate dr1) \<and> truthy (endDate dr1) \<and>
    truthy (startDate dr2) \<and> truthy (endDate dr2) \<and>
    isNaN (newDate_getTime parse (startDate dr1)) \<and>
    isNaN (newDate_getTime parse (endDate dr1)) \<and>
    isNaN (newDate_getTime parse (startDate dr2)) \<and>
    isNaN (newDate_getTime parse (endDate dr2))
      \<longrightarrow> compareDateRanges parse dr1 dr2 = Some 0) \<and>
   (compareDateRanges parse dr1 dr2 = None \<longleftrightarrow>
      \<not> truthy (startDate dr1) \<or> \<not> truthy (endDate dr1) \<or>
      \<not> truthy (startDate dr2) \<or> \<not> truthy (endDate dr2))"
proof -
  have "num_sub x y = NaN" if "isNaN x" for x y
    using that by (cases x) simp_all
  then show ?thesis
    by (auto simp add: compareDateRanges_def Let_def)
qed

theorem compareDateRanges_unparseable_witness:
  "compareDateRanges example_parse (string_range ''tomorrow'' ''next week'')
     (date_range NaN NaN) = Some 0 \<and>
   compareDateRanges example_parse (string_range ''2024-01-01'' ''2024-01-10'')
     \<lparr>startDate = JString ''2024-01-04'', endDate = JUndefined\<rparr> = None"
  using
    compareDateRanges_unparseable
      [of "string_range ''tomorrow'' ''next week''" "date_range NaN NaN" example_parse]
    compareDateRanges_unparseable
      [of "string_range ''2024-01-01'' ''2024-01-10''"
          "\<lparr>startDate = JString ''2024-01-04'', endDate = JUndefined\<rparr>" example_parse]
  by (simp add: string_range_def date_range_def example_parse_def)

section \<open>dateRangeOverlaps: what it writes\<close>

text \<open>
  Claim C10. After a call of \<open>dateRangeOverlaps\<close> the \<^verbatim>\<open>startDate\<close> and \<^verbatim>\<open>endDate\<close>
  of both argument objects hold the numbers that \<^verbatim>\<open>new Date(...).getTime()\<close> gave for
  their previous values, the other properties of the two objects are as before, and
  every other object of the store is as before. The two arguments may be the same
  object.
\<close>

theorem dateRangeOverlaps_mutation:
  "startDate (snd (dateRangeOverlaps parse a b h) a) = JNumber (startTime parse h a) \<and>
   endDate (snd (dateRangeOverlaps parse a b h) a) = JNumber (endTime parse h a) \<and>
   startDate (snd (dateRangeOverlaps parse a b h) b) = JNumber (startTime parse h b) \<and>
   endDate (snd (dateRangeOverlaps parse a b h) b) = JNumber (endTime parse h b) \<and>
   dateRange.more (snd (dateRangeOverlaps parse a b h) a) = dateRange.more (h a) \<and>
   dateRange.more (snd (dateRangeOverlaps parse a b h) b) = dateRange.more (h b) \<and>
   (\<forall>r. r \<noteq> a \<and> r \<noteq> b \<longrightarrow> snd (dateRangeOverlaps parse a b h) r = h r)"
  by (simp add: dateRangeOverlaps_snd to_timestamps_def startTime_def endTime_def
        newDate_getTime_clipped)

theorem dateRangeOverlaps_mutation_witness:
  "snd (dateRangeOverlaps example_parse 0 1
          (store_of [string_range ''2024-01-01'' ''2024-01-10'',
                     string_range ''2024-01-04'' ''not a date'',
                     string_range ''2024-01-06'' ''2024-01-07''])) 0 =
     \<lparr>startDate = JNumber (Fin 1704067200000), endDate = JNumber (Fin 1704844800000)\<rparr> \<and>
   snd (dateRangeOverlaps example_parse 0 1
          (store_of [string_range ''2024-01-01'' ''2024-01-10'',
                     string_range ''2024-01-04'' ''not a date'',
                     string_range ''2024-01-06'' ''2024-01-07''])) 1 =
     \<lparr>startDate = JNumber (Fin 1704326400000), endDate = JNumber NaN\<rparr> \<and>
   snd (dateRangeOverlaps example_parse 0 1
          (store_of [string_range ''2024-01-01'' ''2024-01-10'',
                     string_range ''2024-01-04'' ''not a date'',
                     string_range ''2024-01-06'' ''2024-01-07''])) 2 =
     string_range ''2024-01-06'' ''2024-01-07''"
  using dateRangeOverlaps_mutation
    [where parse = example_parse and a = 0 and b = 1
       and h = "store_of [string_range ''2024-01-01'' ''2024-01-10'',
                          string_range ''2024-01-04'' ''not a date'',
                          string_range ''2024-01-06'' ''2024-01-07'']"]
  by (simp add: store_of_def string_range_def example_parse_def startTime_def endTime_def
        dateRange.equality)

end
